theory Spec2Isabelle
  imports Complex_Main
begin

section \<open>Numbers, errors and Python values\<close>

text \<open>
  Python floats are modelled by the reals: arithmetic is exact, and there is neither
  infinity nor NaN. Everything below is a statement about that idealised arithmetic.
\<close>

datatype error = ValueError | TypeError | ZeroDivisionError | KeyError | StatisticsError

text \<open>
  Python's \<^verbatim>\<open>round(x, ndigits)\<close> on a float rounds to the nearest multiple of
  \<open>10 ^ - ndigits\<close>, a tie going to the even neighbour.
\<close>

definition round_half_even :: "real \<Rightarrow> int" where
  "round_half_even y =
     (let f = \<lfloor>y\<rfloor>; d = y - of_int f
      in if d < 1 / 2 then f else if 1 / 2 < d then f + 1 else if even f then f else f + 1)"

definition py_round :: "real \<Rightarrow> nat \<Rightarrow> real" where
  "py_round x ndigits = of_int (round_half_even (x * 10 ^ ndigits)) / 10 ^ ndigits"

section \<open>The dispatch optimiser (backend/optimization.py)\<close>

text \<open>
  The strategy labels are the string literals of the source. The curtailment label is the
  f-string \<^verbatim>\<open>f"CURTAILING_GEN_{round(curtailed_kw, 1)}KW"\<close>; it is modelled by a
  constructor that carries the number the f-string prints.
\<close>

datatype strategy_label =
    MANUAL_CHARGE
  | MANUAL_DISCHARGE
  | NORMAL_BALANCING
  | DELAYED_CHARGE_EXPORTING
  | CURTAILING_GEN real
  | GRID_IMPORT_SAVE_BATTERY
  | PEAK_GRID_IMPORT_WARNING

record dispatch =
  battery_power_kw :: real
  grid_import_kw :: real
  grid_export_kw :: real
  strategy :: strategy_label

text \<open>
  What \<^verbatim>\<open>optimize_power_flow\<close> reads besides its arguments: the hour of
  \<^verbatim>\<open>datetime.now(pytz.timezone("Asia/Kolkata"))\<close> and the environment variable
  \<^verbatim>\<open>GRID_MAX_EXPORT_KW\<close>. The variable is unset, or holds text that \<^verbatim>\<open>float\<close>
  parses to a number, or holds text that \<^verbatim>\<open>float\<close> rejects.
\<close>

datatype env_value = Unset | EnvNumber real | EnvMalformed

record ambient =
  local_hour :: int
  GRID_MAX_EXPORT_KW_env :: env_value

definition float_getenv :: "env_value \<Rightarrow> real \<Rightarrow> error + real" where
  "float_getenv v dflt =
     (case v of Unset \<Rightarrow> Inr dflt | EnvNumber r \<Rightarrow> Inr r | EnvMalformed \<Rightarrow> Inl ValueError)"

definition optimize_power_flow ::
  "ambient \<Rightarrow> real \<Rightarrow> real \<Rightarrow> real \<Rightarrow> real \<Rightarrow> real \<Rightarrow> real \<Rightarrow> real \<Rightarrow> string \<Rightarrow> real
     \<Rightarrow> error + dispatch" where
  "optimize_power_flow amb current_solar_kw current_wind_kw current_load_kw battery_soc_pct
      battery_cap_kwh battery_max_pw_kw forecast_surplus_kwh_3h mode manual_override_kw =
     (let total_gen = current_solar_kw + current_wind_kw;
          surplus_kw = total_gen - current_load_kw
      in
      if mode = ''MANUAL_CHARGE'' then
        (let charge_rate = min battery_max_pw_kw
               (if manual_override_kw > 0 then manual_override_kw else battery_max_pw_kw);
             charge_limit = (100 - battery_soc_pct) / 100 * battery_cap_kwh / (5 / 3600);
             actual_charge = min charge_rate charge_limit;
             grid_import = max 0 (actual_charge - surplus_kw);
             grid_export = max 0 (surplus_kw - actual_charge)
         in Inr \<lparr>battery_power_kw = py_round actual_charge 2,
                 grid_import_kw = py_round grid_import 2,
                 grid_export_kw = py_round grid_export 2,
                 strategy = MANUAL_CHARGE\<rparr>)
      else if mode = ''MANUAL_DISCHARGE'' then
        (let discharge_rate = min battery_max_pw_kw
               (if manual_override_kw > 0 then manual_override_kw else battery_max_pw_kw);
             actual_discharge0 = min discharge_rate
               ((battery_soc_pct - 5) * battery_cap_kwh / 100 / (5 / 3600));
             actual_discharge = max 0 actual_discharge0;
             total_available = surplus_kw + actual_discharge;
             grid_import = max 0 (- total_available);
             grid_export = max 0 total_available
         in Inr \<lparr>battery_power_kw = - py_round actual_discharge 2,
                 grid_import_kw = py_round grid_import 2,
                 grid_export_kw = py_round grid_export 2,
                 strategy = MANUAL_DISCHARGE\<rparr>)
      else
        (let is_peak_pricing_hour = (14 \<le> local_hour amb \<and> local_hour amb \<le> 18)
         in case float_getenv (GRID_MAX_EXPORT_KW_env amb) 50 of
              Inl e \<Rightarrow> Inl e
            | Inr GRID_MAX_EXPORT_KW \<Rightarrow>
                if surplus_kw > 0 then
                  (let delayed = (forecast_surplus_kwh_3h > 15 \<and> battery_soc_pct > 70
                                   \<and> is_peak_pricing_hour);
                       strategy1 = (if delayed then DELAYED_CHARGE_EXPORTING
                                    else NORMAL_BALANCING);
                       charge_kw =
                         (if delayed then 0
                          else min surplus_kw (min battery_max_pw_kw
                                 ((100 - battery_soc_pct) / 100 * battery_cap_kwh / (5 / 3600))));
                       battery_pw_kw = py_round (max 0 charge_kw) 2;
                       remaining_surplus = surplus_kw - battery_pw_kw;
                       grid_export_kw0 = py_round (max 0 remaining_surplus) 2
                   in if grid_export_kw0 > GRID_MAX_EXPORT_KW then
                        (let curtailed_kw = grid_export_kw0 - GRID_MAX_EXPORT_KW
                         in Inr \<lparr>battery_power_kw = battery_pw_kw,
                                 grid_import_kw = 0,
                                 grid_export_kw = GRID_MAX_EXPORT_KW,
                                 strategy = CURTAILING_GEN (py_round curtailed_kw 1)\<rparr>)
                      else Inr \<lparr>battery_power_kw = battery_pw_kw,
                                grid_import_kw = 0,
                                grid_export_kw = grid_export_kw0,
                                strategy = strategy1\<rparr>)
                else
                  (let deficit_kw = \<bar>surplus_kw\<bar>;
                       save = (forecast_surplus_kwh_3h < - 10 \<and> \<not> is_peak_pricing_hour
                                \<and> battery_soc_pct < 40);
                       strategy1 = (if save then GRID_IMPORT_SAVE_BATTERY else NORMAL_BALANCING);
                       discharge_kw0 =
                         (if save then 0
                          else min deficit_kw (min battery_max_pw_kw
                                 ((battery_soc_pct - 5) / 100 * battery_cap_kwh / (5 / 3600))));
                       discharge_kw = max 0 discharge_kw0;
                       battery_pw_kw = - py_round discharge_kw 2;
                       remaining_deficit = deficit_kw - discharge_kw;
                       strategy2 = (if is_peak_pricing_hour \<and> remaining_deficit > 0
                                    then PEAK_GRID_IMPORT_WARNING else strategy1)
                   in Inr \<lparr>battery_power_kw = battery_pw_kw,
                           grid_import_kw = py_round (max 0 remaining_deficit) 2,
                           grid_export_kw = 0,
                           strategy = strategy2\<rparr>)))"


section \<open>Python values and dictionaries\<close>

text \<open>
  A reading is a Python dict from field names to values. The values that occur are floats,
  \<^verbatim>\<open>None\<close>, strings and datetimes. \<open>PyStr\<close> is text that \<^verbatim>\<open>float\<close> does not
  parse (a label, a timestamp); \<open>PyLabel\<close> is a strategy label of the optimiser, also a
  string; \<open>PyStrOf v\<close> is the string \<^verbatim>\<open>str(v)\<close> of a value that is not a string,
  whose characters are not modelled.
\<close>

datatype py_value =
    PyFloat real
  | PyNone
  | PyStr string
  | PyLabel strategy_label
  | PyDatetime int
  | PyStrOf py_value

type_synonym py_dict = "string \<rightharpoonup> py_value"

definition bind_result :: "error + 'a \<Rightarrow> ('a \<Rightarrow> error + 'b) \<Rightarrow> error + 'b" where
  "bind_result m f = (case m of Inl e \<Rightarrow> Inl e | Inr x \<Rightarrow> f x)"

text \<open>\<^verbatim>\<open>float(v)\<close>: a float is itself, \<^verbatim>\<open>None\<close> and a datetime raise TypeError,
  text that is no number raises ValueError, and the text printed for a float parses back
  to that float.\<close>

fun py_float :: "py_value \<Rightarrow> error + real" where
  "py_float (PyFloat r) = Inr r"
| "py_float PyNone = Inl TypeError"
| "py_float (PyStr s) = Inl ValueError"
| "py_float (PyLabel l) = Inl ValueError"
| "py_float (PyDatetime t) = Inl TypeError"
| "py_float (PyStrOf (PyFloat r)) = Inr r"
| "py_float (PyStrOf v) = Inl ValueError"

text \<open>Truth value of a Python object in an \<^verbatim>\<open>if\<close>.\<close>

fun truthy :: "py_value \<Rightarrow> bool" where
  "truthy (PyFloat r) = (r \<noteq> 0)"
| "truthy PyNone = False"
| "truthy (PyStr s) = (s \<noteq> [])"
| "truthy (PyLabel l) = True"
| "truthy (PyDatetime t) = True"
| "truthy (PyStrOf v) = True"

fun py_str :: "py_value \<Rightarrow> py_value" where
  "py_str (PyStr s) = PyStr s"
| "py_str (PyLabel l) = PyLabel l"
| "py_str (PyStrOf v) = PyStrOf v"
| "py_str v = PyStrOf v"

text \<open>\<^verbatim>\<open>float(d.get(k, dflt))\<close>\<close>

definition get_float :: "py_dict \<Rightarrow> string \<Rightarrow> real \<Rightarrow> error + real" where
  "get_float d k dflt = (case d k of None \<Rightarrow> Inr dflt | Some v \<Rightarrow> py_float v)"

text \<open>\<^verbatim>\<open>d[k]\<close> used as a number in arithmetic.\<close>

definition item_num :: "py_dict \<Rightarrow> string \<Rightarrow> error + real" where
  "item_num d k =
     (case d k of None \<Rightarrow> Inl KeyError | Some (PyFloat r) \<Rightarrow> Inr r | Some _ \<Rightarrow> Inl TypeError)"

section \<open>Payload normalisation (backend/ingestion.py)\<close>

text \<open>
  \<open>utcnow\<close> is the value of \<^verbatim>\<open>datetime.utcnow()\<close>. The dict literal evaluates its
  entries in order, so the first conversion that fails decides the exception.
\<close>

text \<open>Step 2 of \<^verbatim>\<open>process_sensor_payload\<close>: the dict literal, given the converted
  values.\<close>

definition processed_reading ::
  "py_value \<Rightarrow> real \<Rightarrow> real \<Rightarrow> real \<Rightarrow> real \<Rightarrow> real \<Rightarrow> real \<Rightarrow> real \<Rightarrow> real \<Rightarrow> real \<Rightarrow> real \<Rightarrow> real
     \<Rightarrow> py_dict" where
  "processed_reading timestamp solar wind tot load soc bpw gimp gexp selfc co2 cost =
     map_of
       [(''timestamp_utc'', timestamp),
        (''solar_kw'', PyFloat (max 0 solar)),
        (''wind_kw'', PyFloat (max 0 wind)),
        (''total_generation_kw'', PyFloat (max 0 tot)),
        (''load_kw'', PyFloat (max 0 load)),
        (''battery_soc_pct'', PyFloat (max 0 (min 100 soc))),
        (''battery_power_kw'', PyFloat bpw),
        (''grid_import_kw'', PyFloat (max 0 gimp)),
        (''grid_export_kw'', PyFloat (max 0 gexp)),
        (''self_consumption_pct'', PyFloat (max 0 (min 100 selfc))),
        (''co2_saved_kg'', PyFloat co2),
        (''cost_saved_inr'', PyFloat cost)]"

text \<open>Step 3: the optional strategy label.\<close>

definition with_strategy :: "py_dict \<Rightarrow> py_dict \<Rightarrow> py_dict" where
  "with_strategy raw_payload reading =
     (case raw_payload ''active_strategy'' of
        None \<Rightarrow> reading
      | Some label \<Rightarrow>
          if truthy label then reading(''active_strategy'' \<mapsto> py_str label) else reading)"

definition process_sensor_payload :: "py_dict \<Rightarrow> py_value option \<Rightarrow> int \<Rightarrow> error + py_dict" where
  "process_sensor_payload raw_payload timestamp utcnow =
     (let timestamp1 =
            (case timestamp of
               None \<Rightarrow> (case raw_payload ''timestamp_utc'' of
                          None \<Rightarrow> PyDatetime utcnow | Some v \<Rightarrow> v)
             | Some t \<Rightarrow> t)
      in
      bind_result (get_float raw_payload ''solar_kw'' 0) (\<lambda>solar.
      bind_result (get_float raw_payload ''wind_kw'' 0) (\<lambda>wind.
      bind_result (get_float raw_payload ''total_generation_kw'' 0) (\<lambda>tot.
      bind_result (get_float raw_payload ''load_kw'' 0) (\<lambda>load.
      bind_result (get_float raw_payload ''battery_soc_pct'' 50) (\<lambda>soc.
      bind_result (get_float raw_payload ''battery_power_kw'' 0) (\<lambda>bpw.
      bind_result (get_float raw_payload ''grid_import_kw'' 0) (\<lambda>gimp.
      bind_result (get_float raw_payload ''grid_export_kw'' 0) (\<lambda>gexp.
      bind_result (get_float raw_payload ''self_consumption_pct'' 0) (\<lambda>selfc.
      bind_result (get_float raw_payload ''co2_saved_kg'' 0) (\<lambda>co2.
      bind_result (get_float raw_payload ''cost_saved_inr'' 0) (\<lambda>cost.
        Inr (with_strategy raw_payload
               (processed_reading timestamp1 solar wind tot load soc bpw gimp gexp
                  selfc co2 cost))))))))))))))"

section \<open>The simulated feed (backend/simulator.py)\<close>

text \<open>The module constants read from the environment at import.\<close>

record hardware =
  SOLAR_CAP_KW :: real
  WIND_CAP_KW :: real
  BATTERY_CAP_KWH :: real
  BATTERY_MAX_KW :: real

record SensorState =
  battery_soc_pct :: real
  last_ts :: int

record OptimizationConfig =
  mode :: string
  manual_override_kw :: real

text \<open>
  \<^verbatim>\<open>generate_reading\<close> draws its generation and load figures from the clock, from
  trigonometric profiles and from Gaussian noise. Those figures are inputs here: the
  value of \<^verbatim>\<open>_solar_irradiance_factor\<close>, of \<^verbatim>\<open>_wind_speed_factor\<close> and of
  \<^verbatim>\<open>_load_profile_kw\<close> now, and the same three for each of the next three hours.
\<close>

record sampled =
  now :: int
  solar_factor :: real
  wind_factor :: real
  load_profile_kw :: real
  ahead :: "(real \<times> real \<times> real) list"

definition py_div :: "real \<Rightarrow> real \<Rightarrow> error + real" where
  "py_div a b = (if b = 0 then Inl ZeroDivisionError else Inr (a / b))"

text \<open>The SOC update of the simulated feed, with the tick length and the efficiency
  that \<^verbatim>\<open>generate_reading\<close> fixes to \<open>5 / 3600\<close> and \<open>0.95\<close> as arguments.\<close>

definition soc_update_simulated :: "real \<Rightarrow> real \<Rightarrow> real \<Rightarrow> real \<Rightarrow> real \<Rightarrow> error + real" where
  "soc_update_simulated soc battery_pw_kw delta_t_h efficiency cap =
     bind_result (py_div (battery_pw_kw * delta_t_h * efficiency) cap) (\<lambda>q.
       (let soc_delta = q * 100
        in Inr (py_round (max 5 (min 95 (soc + soc_delta))) 2)))"

definition generate_reading ::
  "hardware \<Rightarrow> OptimizationConfig \<Rightarrow> ambient \<Rightarrow> sampled \<Rightarrow> SensorState
     \<Rightarrow> error + (py_dict \<times> SensorState)" where
  "generate_reading hw current_opt_config amb smp state =
     (let solar_kw = py_round (SOLAR_CAP_KW hw * solar_factor smp) 2;
          wind_kw = py_round (WIND_CAP_KW hw * wind_factor smp) 2;
          total_gen = py_round (solar_kw + wind_kw) 2;
          load_kw = py_round (load_profile_kw smp) 2;
          surplus_3h = foldl (\<lambda>acc (sf, wf, ld).
                          acc + ((SOLAR_CAP_KW hw * sf + WIND_CAP_KW hw * wf) - ld)) 0 (ahead smp)
      in
      bind_result (optimize_power_flow amb solar_kw wind_kw load_kw (battery_soc_pct state)
                     (BATTERY_CAP_KWH hw) (BATTERY_MAX_KW hw) surplus_3h
                     (mode current_opt_config) (manual_override_kw current_opt_config))
        (\<lambda>opt_result.
      bind_result (soc_update_simulated (battery_soc_pct state) (battery_power_kw opt_result)
                     (5 / 3600) (95 / 100) (BATTERY_CAP_KWH hw))
        (\<lambda>soc'.
        (let state' = state\<lparr>battery_soc_pct := soc'\<rparr>;
             delta_t_h = 5 / 3600;
             self_consumption_pct =
               py_round (if load_kw > 0 then min 100 (total_gen / load_kw * 100) else 0) 1;
             grid_avoided_kwh = total_gen * delta_t_h;
             co2_saved_kg = py_round (grid_avoided_kwh * (71 / 100)) 4;
             cost_saved_inr = py_round (grid_avoided_kwh * (15 / 2)) 4
         in Inr (map_of
               [(''timestamp'', PyStrOf (PyDatetime (now smp))),
                (''solar_kw'', PyFloat solar_kw),
                (''wind_kw'', PyFloat wind_kw),
                (''total_generation_kw'', PyFloat total_gen),
                (''load_kw'', PyFloat load_kw),
                (''battery_soc_pct'', PyFloat (battery_soc_pct state')),
                (''battery_power_kw'', PyFloat (battery_power_kw opt_result)),
                (''grid_import_kw'', PyFloat (grid_import_kw opt_result)),
                (''grid_export_kw'', PyFloat (grid_export_kw opt_result)),
                (''self_consumption_pct'', PyFloat self_consumption_pct),
                (''co2_saved_kg'', PyFloat co2_saved_kg),
                (''cost_saved_inr'', PyFloat cost_saved_inr),
                (''active_strategy'', PyLabel (strategy opt_result))],
               state')))))"

text \<open>The reading that \<^verbatim>\<open>tick\<close> of backend/main.py keeps: the simulated reading,
  normalised.\<close>

definition tick_reading ::
  "hardware \<Rightarrow> OptimizationConfig \<Rightarrow> ambient \<Rightarrow> sampled \<Rightarrow> int \<Rightarrow> SensorState
     \<Rightarrow> error + (py_dict \<times> SensorState)" where
  "tick_reading hw current_opt_config amb smp utcnow sensor_state =
     bind_result (generate_reading hw current_opt_config amb smp sensor_state)
       (\<lambda>(raw_reading, state').
     bind_result (process_sensor_payload raw_reading None utcnow)
       (\<lambda>reading. Inr (reading, state')))"

section \<open>The ingest endpoint (backend/main.py)\<close>

record IngestPayload =
  timestamp_utc :: "string option"
  solar_kw :: real
  wind_kw :: real
  load_kw :: real
  soc_pct :: real

text \<open>\<^verbatim>\<open>payload.model_dump()\<close>; the field \<open>soc_pct\<close> is the source's
  \<^verbatim>\<open>battery_soc_pct\<close>.\<close>

definition model_dump :: "IngestPayload \<Rightarrow> py_dict" where
  "model_dump payload = map_of
     [(''timestamp_utc'', (case timestamp_utc payload of None \<Rightarrow> PyNone | Some s \<Rightarrow> PyStr s)),
      (''solar_kw'', PyFloat (solar_kw payload)),
      (''wind_kw'', PyFloat (wind_kw payload)),
      (''load_kw'', PyFloat (load_kw payload)),
      (''battery_soc_pct'', PyFloat (soc_pct payload))]"

text \<open>The SOC update of the ingest endpoint.\<close>

definition soc_update_ingested :: "real \<Rightarrow> real \<Rightarrow> real \<Rightarrow> real \<Rightarrow> error + real" where
  "soc_update_ingested soc battery_pw_kw delta_t_h cap =
     (let kwh_change = battery_pw_kw * delta_t_h
      in bind_result (py_div kwh_change cap) (\<lambda>q.
           Inr (max 0 (min 100 (soc + q * 100)))))"

text \<open>\<^verbatim>\<open>ingest_data\<close> up to the point where the reading is complete (step 3); the
  database and the WebSocket are left out.\<close>

definition ingest_data ::
  "hardware \<Rightarrow> OptimizationConfig \<Rightarrow> ambient \<Rightarrow> int \<Rightarrow> IngestPayload \<Rightarrow> SensorState
     \<Rightarrow> error + (py_dict \<times> SensorState)" where
  "ingest_data hw current_opt_config amb utcnow payload sensor_state =
     (let raw_payload = model_dump payload
      in
      bind_result (process_sensor_payload raw_payload None utcnow) (\<lambda>reading.
      bind_result (item_num reading ''solar_kw'') (\<lambda>r_solar.
      bind_result (item_num reading ''wind_kw'') (\<lambda>r_wind.
      bind_result (item_num reading ''load_kw'') (\<lambda>r_load.
      bind_result (optimize_power_flow amb r_solar r_wind r_load (battery_soc_pct sensor_state)
                     (BATTERY_CAP_KWH hw) (BATTERY_MAX_KW hw) 0
                     (mode current_opt_config) (manual_override_kw current_opt_config))
        (\<lambda>opt_result.
        (let reading1 = reading(''battery_power_kw'' \<mapsto> PyFloat (battery_power_kw opt_result),
                                ''grid_import_kw'' \<mapsto> PyFloat (grid_import_kw opt_result),
                                ''grid_export_kw'' \<mapsto> PyFloat (grid_export_kw opt_result),
                                ''active_strategy'' \<mapsto> PyLabel (strategy opt_result))
         in
         bind_result (soc_update_ingested (battery_soc_pct sensor_state)
                        (battery_power_kw opt_result) (5 / 3600) (BATTERY_CAP_KWH hw))
           (\<lambda>soc'.
           (let sensor_state' = sensor_state\<lparr>battery_soc_pct := soc'\<rparr>;
                reading2 = reading1(''battery_soc_pct'' \<mapsto> PyFloat (py_round soc' 1))
            in
            bind_result (item_num reading2 ''solar_kw'') (\<lambda>a.
            bind_result (item_num reading2 ''wind_kw'') (\<lambda>b.
              (let total_gen = a + b;
                   reading3 = reading2(''total_generation_kw'' \<mapsto> PyFloat total_gen)
               in
               bind_result (item_num reading3 ''load_kw'') (\<lambda>l.
                 (let reading4 = reading3(''self_consumption_pct'' \<mapsto>
                        PyFloat (py_round (min 100 (total_gen / max 1 l * 100)) 1))
                  in Inr (reading4, sensor_state')))))))))))))))"

section \<open>The rolling window store (backend/engine/ingestion.py)\<close>

definition WINDOW_SIZE :: int where
  "WINDOW_SIZE = 720"

definition ANOMALY_SIGMA :: real where
  "ANOMALY_SIGMA = 3"

definition AGGREGATE_MINUTES :: int where
  "AGGREGATE_MINUTES = 5"

text \<open>Times are microseconds, the resolution of \<^verbatim>\<open>datetime\<close>.\<close>

definition timedelta_minutes :: "int \<Rightarrow> int" where
  "timedelta_minutes m = m * 60000000"

record AnomalyFlag =
  flag_field :: string
  flag_value :: real
  flag_mean :: real
  flag_sigma :: real
  flag_severity :: string

definition AnomalyFlag_init :: "string \<Rightarrow> real \<Rightarrow> real \<Rightarrow> real \<Rightarrow> AnomalyFlag" where
  "AnomalyFlag_init fld v mu sg =
     \<lparr>flag_field = fld, flag_value = v, flag_mean = mu, flag_sigma = sg,
      flag_severity = (if \<bar>v - mu\<bar> > ANOMALY_SIGMA * 2 * sg then ''HIGH'' else ''MEDIUM'')\<rparr>"

definition NUMERIC_FIELDS :: "string list" where
  "NUMERIC_FIELDS =
     [''solar_kw'', ''wind_kw'', ''total_generation_kw'',
      ''load_kw'', ''battery_soc_pct'', ''battery_power_kw'',
      ''grid_import_kw'', ''grid_export_kw'',
      ''self_consumption_pct'', ''co2_saved_kg'', ''cost_saved_inr'']"

text \<open>
  The pipeline object. \<open>window_maxlen\<close> is the \<^verbatim>\<open>maxlen\<close> of the deque
  \<^verbatim>\<open>_window\<close>; the deque \<^verbatim>\<open>_aggs\<close> has \<^verbatim>\<open>maxlen=288\<close>. The lock is not
  modelled: each operation runs alone.
\<close>

record IngestionPipeline =
  window_maxlen :: nat
  window :: "py_dict list"
  agg_buf :: "py_dict list"
  aggs :: "py_dict list"
  agg_cutoff :: "int option"

text \<open>\<^verbatim>\<open>deque.append\<close> on a bounded deque: the item goes to the right end, and when
  the deque is then longer than \<^verbatim>\<open>maxlen\<close> the leftmost item is dropped.\<close>

definition deque_append :: "nat \<Rightarrow> 'a list \<Rightarrow> 'a \<Rightarrow> 'a list" where
  "deque_append maxlen xs x = (let ys = xs @ [x] in if length ys > maxlen then tl ys else ys)"

text \<open>\<^verbatim>\<open>deque(maxlen=window)\<close> raises ValueError for a negative \<^verbatim>\<open>maxlen\<close>.\<close>

definition IngestionPipeline_init :: "int \<Rightarrow> error + IngestionPipeline" where
  "IngestionPipeline_init wnd =
     (if wnd < 0 then Inl ValueError
      else Inr \<lparr>window_maxlen = nat wnd, window = [], agg_buf = [], aggs = [],
                agg_cutoff = None\<rparr>)"

fun as_numbers :: "py_value list \<Rightarrow> real list option" where
  "as_numbers [] = Some []"
| "as_numbers (PyFloat r # vs) =
     (case as_numbers vs of None \<Rightarrow> None | Some rs \<Rightarrow> Some (r # rs))"
| "as_numbers (v # vs) = None"

text \<open>\<^verbatim>\<open>statistics.mean\<close> and \<^verbatim>\<open>statistics.stdev\<close> (the sample standard
  deviation).\<close>

definition statistics_mean :: "py_value list \<Rightarrow> error + real" where
  "statistics_mean vals =
     (if vals = [] then Inl StatisticsError
      else case as_numbers vals of
             None \<Rightarrow> Inl TypeError
           | Some xs \<Rightarrow> Inr (sum_list xs / real (length xs)))"

definition statistics_stdev :: "py_value list \<Rightarrow> error + real" where
  "statistics_stdev vals =
     (case as_numbers vals of
        None \<Rightarrow> Inl TypeError
      | Some xs \<Rightarrow>
          if length xs < 2 then Inl StatisticsError
          else (let m = sum_list xs / real (length xs)
                in Inr (sqrt (sum_list (map (\<lambda>x. (x - m) ^ 2) xs) / real (length xs - 1)))))"

text \<open>\<^verbatim>\<open>[r[field] for r in rs if field in r]\<close>\<close>

definition field_values :: "py_dict list \<Rightarrow> string \<Rightarrow> py_value list" where
  "field_values rs fld = List.map_filter (\<lambda>r. r fld) rs"

text \<open>\<^verbatim>\<open>statistics.stdev(values) if len(values) > 1 else 0.0\<close>\<close>

definition rolling_sigma :: "py_value list \<Rightarrow> error + real" where
  "rolling_sigma vals = (if length vals > 1 then statistics_stdev vals else Inr 0)"

definition py_num :: "py_value \<Rightarrow> error + real" where
  "py_num v = (case v of PyFloat r \<Rightarrow> Inr r | _ \<Rightarrow> Inl TypeError)"

text \<open>One round of the loop of \<^verbatim>\<open>_detect_anomalies\<close>: the flag for one field, or
  none when the round ends in \<^verbatim>\<open>continue\<close> or the test fails.\<close>

definition detect_field :: "py_dict list \<Rightarrow> py_dict \<Rightarrow> string \<Rightarrow> error + AnomalyFlag option" where
  "detect_field wnd reading fld =
     (let vals = field_values wnd fld
      in if length vals < 10 then Inr None
         else
           bind_result (statistics_mean vals) (\<lambda>mu.
           bind_result (rolling_sigma vals) (\<lambda>sigma.
             if sigma < 1 / 10 then Inr None
             else
               bind_result (py_num (case reading fld of None \<Rightarrow> PyFloat 0 | Some v \<Rightarrow> v)) (\<lambda>val.
                 if \<bar>val - mu\<bar> > ANOMALY_SIGMA * sigma
                 then Inr (Some (AnomalyFlag_init fld val mu sigma))
                 else Inr None))))"

fun detect_loop ::
  "py_dict list \<Rightarrow> py_dict \<Rightarrow> string list \<Rightarrow> AnomalyFlag list \<Rightarrow> error + AnomalyFlag list" where
  "detect_loop wnd reading [] flags = Inr flags"
| "detect_loop wnd reading (fld # flds) flags =
     (case detect_field wnd reading fld of
        Inl e \<Rightarrow> Inl e
      | Inr None \<Rightarrow> detect_loop wnd reading flds flags
      | Inr (Some fl) \<Rightarrow> detect_loop wnd reading flds (flags @ [fl]))"

definition detect_anomalies :: "py_dict list \<Rightarrow> py_dict \<Rightarrow> error + AnomalyFlag list" where
  "detect_anomalies wnd reading =
     (if length wnd < 30 then Inr []
      else detect_loop wnd reading [''solar_kw'', ''wind_kw'', ''load_kw'', ''grid_import_kw''] [])"

text \<open>\<^verbatim>\<open>[r[field] for r in self._agg_buf if field in r and r[field] is not None]\<close>\<close>

definition present_values :: "py_dict list \<Rightarrow> string \<Rightarrow> py_value list" where
  "present_values rs fld =
     List.map_filter (\<lambda>r. case r fld of None \<Rightarrow> None | Some PyNone \<Rightarrow> None | Some v \<Rightarrow> Some v) rs"

definition agg_value :: "py_dict list \<Rightarrow> string \<Rightarrow> error + real" where
  "agg_value buf fld =
     (let vals = present_values buf fld
      in if vals \<noteq> [] then bind_result (statistics_mean vals) (\<lambda>m. Inr (py_round m 3))
         else Inr 0)"

fun agg_loop :: "py_dict list \<Rightarrow> string list \<Rightarrow> py_dict \<Rightarrow> error + py_dict" where
  "agg_loop buf [] agg = Inr agg"
| "agg_loop buf (fld # flds) agg =
     (case agg_value buf fld of
        Inl e \<Rightarrow> Inl e
      | Inr v \<Rightarrow> agg_loop buf flds (agg(fld \<mapsto> PyFloat v)))"

definition flush_aggregate :: "IngestionPipeline \<Rightarrow> int \<Rightarrow> error + IngestionPipeline" where
  "flush_aggregate s bin_ts =
     (if agg_buf s = [] then Inr s
      else case agg_loop (agg_buf s) NUMERIC_FIELDS
                  [''timestamp'' \<mapsto> PyStrOf (PyDatetime bin_ts)] of
             Inl e \<Rightarrow> Inl e
           | Inr agg \<Rightarrow> Inr (s\<lparr>aggs := deque_append 288 (aggs s) agg\<rparr>))"

text \<open>
  \<^verbatim>\<open>ingest\<close>; \<open>ts\<close> is the value of \<^verbatim>\<open>datetime.now(timezone.utc)\<close>. The object
  is mutated before anything can raise, so the new state is returned beside the result,
  also when the result is an exception.
\<close>

definition ingest ::
  "IngestionPipeline \<Rightarrow> int \<Rightarrow> py_dict \<Rightarrow> IngestionPipeline \<times> (error + AnomalyFlag list)" where
  "ingest s ts reading =
     (let s1 = s\<lparr>window := deque_append (window_maxlen s) (window s) reading,
                 agg_buf := agg_buf s @ [reading]\<rparr>;
          cutoff = (case agg_cutoff s1 of
                      None \<Rightarrow> ts + timedelta_minutes AGGREGATE_MINUTES
                    | Some c \<Rightarrow> c);
          s2 = s1\<lparr>agg_cutoff := Some cutoff\<rparr>
      in if ts \<ge> cutoff then
           (case flush_aggregate s2 cutoff of
              Inl e \<Rightarrow> (s2, Inl e)
            | Inr s3 \<Rightarrow>
                (let s4 = s3\<lparr>agg_buf := [],
                            agg_cutoff := Some (ts + timedelta_minutes AGGREGATE_MINUTES)\<rparr>
                 in (s4, detect_anomalies (window s4) reading)))
         else (s2, detect_anomalies (window s2) reading))"

text \<open>A driver that ingests one reading after another, each at its time, whatever each
  call returns.\<close>

definition ingest_all :: "IngestionPipeline \<Rightarrow> (int \<times> py_dict) list \<Rightarrow> IngestionPipeline" where
  "ingest_all s trs = foldl (\<lambda>st (ts, reading). fst (ingest st ts reading)) s trs"

text \<open>The slice \<^verbatim>\<open>items[start:]\<close> of Python.\<close>

definition py_slice_from :: "'a list \<Rightarrow> int \<Rightarrow> 'a list" where
  "py_slice_from items start =
     (let n = int (length items);
          i = (if start < 0 then max 0 (n + start) else min start n)
      in drop (nat i) items)"

definition recent :: "IngestionPipeline \<Rightarrow> int \<Rightarrow> py_dict list" where
  "recent s n = (let items = window s in py_slice_from items (- n))"

definition aggregates :: "IngestionPipeline \<Rightarrow> int \<Rightarrow> py_dict list" where
  "aggregates s n = (let items = aggs s in py_slice_from items (- n))"

section \<open>Rounding lemmas\<close>

lemma round_half_even_int [simp]: "round_half_even (of_int k) = k"
  by (simp add: round_half_even_def)

lemma round_half_even_ge: "of_int k \<le> y \<Longrightarrow> k \<le> round_half_even y"
proof -
  assume "of_int k \<le> y"
  then have "k \<le> \<lfloor>y\<rfloor>" by (simp add: le_floor_iff)
  then show ?thesis by (auto simp: round_half_even_def Let_def)
qed

lemma round_half_even_le: "y \<le> of_int k \<Longrightarrow> round_half_even y \<le> k"
proof -
  assume yk: "y \<le> of_int k"
  show ?thesis
  proof (cases "y = of_int k")
    case True
    then show ?thesis by simp
  next
    case False
    with yk have "y < of_int k" by simp
    then have "\<lfloor>y\<rfloor> < k" by (simp add: floor_less_iff)
    then show ?thesis by (auto simp: round_half_even_def Let_def)
  qed
qed

lemma py_round_zero [simp]: "py_round 0 n = 0"
  using round_half_even_int [of 0] by (simp add: py_round_def)

lemma py_round_nonneg: "0 \<le> x \<Longrightarrow> 0 \<le> py_round x n"
proof -
  assume "0 \<le> x"
  then have "of_int 0 \<le> x * 10 ^ n" by simp
  then have "0 \<le> round_half_even (x * 10 ^ n)" by (rule round_half_even_ge)
  then show ?thesis by (simp add: py_round_def)
qed

section \<open>The optimiser, branch by branch\<close>

lemma py_round_max_pair:
  "\<not> (py_round (max 0 a) n > 0 \<and> py_round (max 0 (- a)) n > 0)"
proof (cases "a \<le> 0")
  case True
  then have "max 0 a = 0" by simp
  then show ?thesis by simp
next
  case False
  then have "max 0 (- a) = 0" by simp
  then show ?thesis by simp
qed

lemma opf_manual_charge:
  "optimize_power_flow amb solar wind load soc cap maxpw fc ''MANUAL_CHARGE'' ovr =
     Inr \<lparr>battery_power_kw = py_round (min (min maxpw (if ovr > 0 then ovr else maxpw))
               ((100 - soc) / 100 * cap / (5 / 3600))) 2,
          grid_import_kw = py_round (max 0 (min (min maxpw (if ovr > 0 then ovr else maxpw))
               ((100 - soc) / 100 * cap / (5 / 3600)) - (solar + wind - load))) 2,
          grid_export_kw = py_round (max 0 (solar + wind - load
               - min (min maxpw (if ovr > 0 then ovr else maxpw))
               ((100 - soc) / 100 * cap / (5 / 3600)))) 2,
          strategy = MANUAL_CHARGE\<rparr>"
  unfolding optimize_power_flow_def Let_def by (simp only: simp_thms if_True)

lemma opf_manual_discharge:
  "optimize_power_flow amb solar wind load soc cap maxpw fc ''MANUAL_DISCHARGE'' ovr =
     Inr \<lparr>battery_power_kw = - py_round (max 0 (min (min maxpw (if ovr > 0 then ovr else maxpw))
               ((soc - 5) * cap / 100 / (5 / 3600)))) 2,
          grid_import_kw = py_round (max 0 (- (solar + wind - load
               + max 0 (min (min maxpw (if ovr > 0 then ovr else maxpw))
               ((soc - 5) * cap / 100 / (5 / 3600)))))) 2,
          grid_export_kw = py_round (max 0 (solar + wind - load
               + max 0 (min (min maxpw (if ovr > 0 then ovr else maxpw))
               ((soc - 5) * cap / 100 / (5 / 3600))))) 2,
          strategy = MANUAL_DISCHARGE\<rparr>"
proof -
  have ne: "''MANUAL_DISCHARGE'' \<noteq> ''MANUAL_CHARGE''" by simp
  show ?thesis
    unfolding optimize_power_flow_def Let_def by (simp only: ne simp_thms if_True if_False)
qed

lemma opf_auto_surplus:
  assumes "md \<noteq> ''MANUAL_CHARGE''" "md \<noteq> ''MANUAL_DISCHARGE''"
    and "float_getenv (GRID_MAX_EXPORT_KW_env amb) 50 = Inr gmax"
    and "solar + wind - load > 0"
  shows "optimize_power_flow amb solar wind load soc cap maxpw fc md ovr =
     (let delayed = (fc > 15 \<and> soc > 70 \<and> (14 \<le> local_hour amb \<and> local_hour amb \<le> 18));
          bp = py_round (max 0 (if delayed then 0
                 else min (solar + wind - load)
                        (min maxpw ((100 - soc) / 100 * cap / (5 / 3600))))) 2;
          pre = py_round (max 0 (solar + wind - load - bp)) 2
      in if pre > gmax
         then Inr \<lparr>battery_power_kw = bp, grid_import_kw = 0, grid_export_kw = gmax,
                   strategy = CURTAILING_GEN (py_round (pre - gmax) 1)\<rparr>
         else Inr \<lparr>battery_power_kw = bp, grid_import_kw = 0, grid_export_kw = pre,
                   strategy = (if delayed then DELAYED_CHARGE_EXPORTING
                               else NORMAL_BALANCING)\<rparr>)"
  unfolding optimize_power_flow_def Let_def
  by (simp only: assms simp_thms if_True if_False sum.case)

lemma opf_auto_deficit:
  assumes "md \<noteq> ''MANUAL_CHARGE''" "md \<noteq> ''MANUAL_DISCHARGE''"
    and "float_getenv (GRID_MAX_EXPORT_KW_env amb) 50 = Inr gmax"
    and "\<not> solar + wind - load > 0"
  shows "optimize_power_flow amb solar wind load soc cap maxpw fc md ovr =
     (let peak = (14 \<le> local_hour amb \<and> local_hour amb \<le> 18);
          save = (fc < - 10 \<and> \<not> peak \<and> soc < 40);
          discharge = max 0 (if save then 0
                 else min \<bar>solar + wind - load\<bar>
                        (min maxpw ((soc - 5) / 100 * cap / (5 / 3600))));
          remaining = \<bar>solar + wind - load\<bar> - discharge
      in Inr \<lparr>battery_power_kw = - py_round discharge 2,
               grid_import_kw = py_round (max 0 remaining) 2,
               grid_export_kw = 0,
               strategy = (if peak \<and> remaining > 0 then PEAK_GRID_IMPORT_WARNING
                           else if save then GRID_IMPORT_SAVE_BATTERY
                           else NORMAL_BALANCING)\<rparr>)"
  unfolding optimize_power_flow_def Let_def
  by (simp only: assms simp_thms if_True if_False sum.case)

lemma opf_auto_error:
  assumes "md \<noteq> ''MANUAL_CHARGE''" "md \<noteq> ''MANUAL_DISCHARGE''"
    and "float_getenv (GRID_MAX_EXPORT_KW_env amb) 50 = Inl e"
  shows "optimize_power_flow amb solar wind load soc cap maxpw fc md ovr = Inl e"
  unfolding optimize_power_flow_def Let_def
  by (simp only: assms simp_thms if_True if_False sum.case)


lemma opf_manual_charge_grid:
  assumes "optimize_power_flow amb solar wind load soc cap maxpw fc ''MANUAL_CHARGE'' ovr = Inr res"
  shows "\<exists>a. grid_import_kw res = py_round (max 0 a) 2
           \<and> grid_export_kw res = py_round (max 0 (- a)) 2"
proof -
  let ?c = "min (min maxpw (if ovr > 0 then ovr else maxpw))
               ((100 - soc) / 100 * cap / (5 / 3600))"
  let ?s = "solar + wind - load"
  have m: "?s - ?c = - (?c - ?s)" by simp
  from assms [unfolded opf_manual_charge] have r:
    "\<lparr>battery_power_kw = py_round ?c 2, grid_import_kw = py_round (max 0 (?c - ?s)) 2,
      grid_export_kw = py_round (max 0 (?s - ?c)) 2, strategy = MANUAL_CHARGE\<rparr> = res"
    by (simp only: sum.inject)
  have "grid_import_kw res = py_round (max 0 (?c - ?s)) 2"
    "grid_export_kw res = py_round (max 0 (?s - ?c)) 2"
    using arg_cong [OF r, of grid_import_kw] arg_cong [OF r, of grid_export_kw]
    by (simp_all only: dispatch.select_convs)
  then have "grid_import_kw res = py_round (max 0 (?c - ?s)) 2
      \<and> grid_export_kw res = py_round (max 0 (- (?c - ?s))) 2"
    by (simp only: m)
  then show ?thesis by blast
qed

lemma opf_manual_discharge_grid:
  assumes "optimize_power_flow amb solar wind load soc cap maxpw fc ''MANUAL_DISCHARGE'' ovr = Inr res"
  shows "\<exists>a. grid_import_kw res = py_round (max 0 (- a)) 2
           \<and> grid_export_kw res = py_round (max 0 a) 2"
proof -
  let ?t = "solar + wind - load
               + max 0 (min (min maxpw (if ovr > 0 then ovr else maxpw))
               ((soc - 5) * cap / 100 / (5 / 3600)))"
  from assms [unfolded opf_manual_discharge] have r:
    "\<lparr>battery_power_kw = - py_round (max 0 (min (min maxpw (if ovr > 0 then ovr else maxpw))
               ((soc - 5) * cap / 100 / (5 / 3600)))) 2,
      grid_import_kw = py_round (max 0 (- ?t)) 2,
      grid_export_kw = py_round (max 0 ?t) 2, strategy = MANUAL_DISCHARGE\<rparr> = res"
    by (simp only: sum.inject)
  have "grid_import_kw res = py_round (max 0 (- ?t)) 2 \<and> grid_export_kw res = py_round (max 0 ?t) 2"
    using arg_cong [OF r, of grid_import_kw] arg_cong [OF r, of grid_export_kw]
    by (simp only: dispatch.select_convs)
  then show ?thesis by blast
qed

lemma if_Inr: "(if P then Inr A else Inr B) = Inr r \<Longrightarrow> r = (if P then A else B)"
  by (simp split: if_splits)

lemma opf_auto_surplus_fields:
  assumes au: "md \<noteq> ''MANUAL_CHARGE''" "md \<noteq> ''MANUAL_DISCHARGE''"
    and env: "float_getenv (GRID_MAX_EXPORT_KW_env amb) 50 = Inr gmax"
    and pos: "solar + wind - load > 0"
    and res: "optimize_power_flow amb solar wind load soc cap maxpw fc md ovr = Inr res"
  shows "battery_power_kw res =
           py_round (max 0 (if fc > 15 \<and> soc > 70 \<and> (14 \<le> local_hour amb \<and> local_hour amb \<le> 18)
                 then 0
                 else min (solar + wind - load)
                        (min maxpw ((100 - soc) / 100 * cap / (5 / 3600))))) 2"
    and "grid_import_kw res = 0"
    and "grid_export_kw res =
           (if py_round (max 0 (solar + wind - load - battery_power_kw res)) 2 > gmax then gmax
            else py_round (max 0 (solar + wind - load - battery_power_kw res)) 2)"
    and "strategy res =
           (if py_round (max 0 (solar + wind - load - battery_power_kw res)) 2 > gmax
            then CURTAILING_GEN
                   (py_round (py_round (max 0 (solar + wind - load - battery_power_kw res)) 2 - gmax) 1)
            else if fc > 15 \<and> soc > 70 \<and> (14 \<le> local_hour amb \<and> local_hour amb \<le> 18)
                 then DELAYED_CHARGE_EXPORTING else NORMAL_BALANCING)"
proof -
  note r = if_Inr [OF res [unfolded opf_auto_surplus [OF au env pos] Let_def]]
  show b: "battery_power_kw res =
           py_round (max 0 (if fc > 15 \<and> soc > 70 \<and> (14 \<le> local_hour amb \<and> local_hour amb \<le> 18)
                 then 0
                 else min (solar + wind - load)
                        (min maxpw ((100 - soc) / 100 * cap / (5 / 3600))))) 2"
    by (subst r) (simp only: if_distrib [of battery_power_kw] dispatch.select_convs if_cancel)
  show "grid_import_kw res = 0"
    by (subst r) (simp only: if_distrib [of grid_import_kw] dispatch.select_convs if_cancel)
  show "grid_export_kw res =
           (if py_round (max 0 (solar + wind - load - battery_power_kw res)) 2 > gmax then gmax
            else py_round (max 0 (solar + wind - load - battery_power_kw res)) 2)"
    unfolding b
    by (subst r) (simp only: if_distrib [of grid_export_kw] dispatch.select_convs)
  show "strategy res =
           (if py_round (max 0 (solar + wind - load - battery_power_kw res)) 2 > gmax
            then CURTAILING_GEN
                   (py_round (py_round (max 0 (solar + wind - load - battery_power_kw res)) 2 - gmax) 1)
            else if fc > 15 \<and> soc > 70 \<and> (14 \<le> local_hour amb \<and> local_hour amb \<le> 18)
                 then DELAYED_CHARGE_EXPORTING else NORMAL_BALANCING)"
    unfolding b
    by (subst r) (simp only: if_distrib [of strategy] dispatch.select_convs)
qed

lemma opf_auto_deficit_export:
  assumes au: "md \<noteq> ''MANUAL_CHARGE''" "md \<noteq> ''MANUAL_DISCHARGE''"
    and env: "float_getenv (GRID_MAX_EXPORT_KW_env amb) 50 = Inr gmax"
    and neg: "\<not> solar + wind - load > 0"
    and res: "optimize_power_flow amb solar wind load soc cap maxpw fc md ovr = Inr res"
  shows "grid_export_kw res = 0"
proof -
  note r = res [unfolded opf_auto_deficit [OF au env neg] Let_def sum.inject, symmetric]
  show ?thesis by (subst r) (simp only: dispatch.select_convs)
qed

lemma if_Inr_eq: "(if P then Inr A else Inr B) = Inr (if P then A else B)"
  by simp

lemma opf_auto_surplus_returns:
  assumes au: "md \<noteq> ''MANUAL_CHARGE''" "md \<noteq> ''MANUAL_DISCHARGE''"
    and env: "float_getenv (GRID_MAX_EXPORT_KW_env amb) 50 = Inr gmax"
    and pos: "solar + wind - load > 0"
  shows "\<exists>res. optimize_power_flow amb solar wind load soc cap maxpw fc md ovr = Inr res"
  unfolding opf_auto_surplus [OF au env pos] Let_def if_Inr_eq by (rule exI) (rule refl)

section \<open>Claims about the dispatch optimiser\<close>

text \<open>
  C6. In AUTO mode (any mode that is not one of the two manual ones) with a positive
  surplus, the optimiser returns, the returned grid export never exceeds the grid export
  ceiling, and whenever the export before capping (the surplus left after charging,
  rounded to two decimals) exceeds the ceiling, the export is the ceiling and the strategy
  is the curtailment tag carrying the curtailed amount, pre-cap export minus ceiling, as
  the tag prints it (rounded to one decimal).
\<close>

theorem export_never_exceeds_ceiling:
  assumes au: "md \<noteq> ''MANUAL_CHARGE''" "md \<noteq> ''MANUAL_DISCHARGE''"
    and pos: "solar + wind - load > 0"
    and env: "float_getenv (GRID_MAX_EXPORT_KW_env amb) 50 = Inr gmax"
  shows "\<exists>res. optimize_power_flow amb solar wind load soc cap maxpw fc md ovr = Inr res
     \<and> grid_export_kw res \<le> gmax
     \<and> (py_round (max 0 (solar + wind - load - battery_power_kw res)) 2 > gmax \<longrightarrow>
          grid_export_kw res = gmax
          \<and> strategy res = CURTAILING_GEN
              (py_round (py_round (max 0 (solar + wind - load - battery_power_kw res)) 2 - gmax) 1))"
proof -
  from opf_auto_surplus_returns [OF au env pos] obtain res where
    res: "optimize_power_flow amb solar wind load soc cap maxpw fc md ovr = Inr res" by blast
  note f = opf_auto_surplus_fields [OF au env pos res]
  let ?pre = "py_round (max 0 (solar + wind - load - battery_power_kw res)) 2"
  have "grid_export_kw res \<le> gmax" by (subst f(3)) simp
  moreover have "?pre > gmax \<longrightarrow> grid_export_kw res = gmax
      \<and> strategy res = CURTAILING_GEN (py_round (?pre - gmax) 1)"
    by (subst f(3), subst f(4)) simp
  ultimately show ?thesis using res by blast
qed

theorem export_never_exceeds_ceiling_witness:
  "\<exists>res. optimize_power_flow \<lparr>local_hour = 10, GRID_MAX_EXPORT_KW_env = Unset\<rparr>
            90 0 10 50 80 20 0 ''AUTO'' 0 = Inr res
     \<and> grid_export_kw res \<le> 50 \<and> grid_export_kw res = 50
     \<and> battery_power_kw res = 20 \<and> strategy res = CURTAILING_GEN 10"
proof -
  have h: "''AUTO'' \<noteq> ''MANUAL_CHARGE''" "''AUTO'' \<noteq> ''MANUAL_DISCHARGE''"
    "(90::real) + 0 - 10 > 0"
    "float_getenv (GRID_MAX_EXPORT_KW_env \<lparr>local_hour = 10, GRID_MAX_EXPORT_KW_env = Unset\<rparr>) 50
       = Inr 50"
    by (simp_all add: float_getenv_def)
  have v: "optimize_power_flow \<lparr>local_hour = 10, GRID_MAX_EXPORT_KW_env = Unset\<rparr>
            90 0 10 50 80 20 0 ''AUTO'' 0
     = Inr \<lparr>battery_power_kw = 20, grid_import_kw = 0, grid_export_kw = 50,
            strategy = CURTAILING_GEN 10\<rparr>"
    unfolding optimize_power_flow_def Let_def
    by (simp add: float_getenv_def py_round_def round_half_even_def)
  from export_never_exceeds_ceiling [OF h, of 50 80 20 0 0] show ?thesis
    unfolding v by auto
qed

text \<open>
  C5, as amended. In AUTO mode with a positive surplus, when the 3-hour forecast surplus
  exceeds 15 kWh, the SOC exceeds 70 % and the local hour is in the peak band (the source
  tests \<open>14 \<le> hour \<le> 18\<close>), the optimiser returns battery power 0 and grid import 0.
  When the surplus rounded to two decimals does not exceed the grid export ceiling, it is
  exported and the label is DELAYED_CHARGE_EXPORTING; otherwise the export is the ceiling
  and the label is the curtailment tag.
\<close>

theorem delayed_charge_exporting:
  assumes au: "md \<noteq> ''MANUAL_CHARGE''" "md \<noteq> ''MANUAL_DISCHARGE''"
    and pos: "solar + wind - load > 0"
    and fc: "fc > 15" and soc: "soc > 70"
    and peak: "14 \<le> local_hour amb" "local_hour amb \<le> 18"
    and env: "float_getenv (GRID_MAX_EXPORT_KW_env amb) 50 = Inr gmax"
  shows "\<exists>res. optimize_power_flow amb solar wind load soc cap maxpw fc md ovr = Inr res
     \<and> battery_power_kw res = 0 \<and> grid_import_kw res = 0
     \<and> (if py_round (solar + wind - load) 2 \<le> gmax
        then grid_export_kw res = py_round (solar + wind - load) 2
             \<and> strategy res = DELAYED_CHARGE_EXPORTING
        else grid_export_kw res = gmax
             \<and> strategy res = CURTAILING_GEN (py_round (py_round (solar + wind - load) 2 - gmax) 1))"
proof -
  from opf_auto_surplus_returns [OF au env pos] obtain res where
    res: "optimize_power_flow amb solar wind load soc cap maxpw fc md ovr = Inr res" by blast
  note f = opf_auto_surplus_fields [OF au env pos res]
  have d: "fc > 15 \<and> soc > 70 \<and> (14 \<le> local_hour amb \<and> local_hour amb \<le> 18)"
    using fc soc peak by simp
  have b: "battery_power_kw res = 0"
    by (subst f(1)) (simp only: d simp_thms if_True max.idem py_round_zero)
  have m: "max 0 (solar + wind - load - 0) = solar + wind - load" using pos by simp
  have e: "grid_export_kw res = (if py_round (solar + wind - load) 2 > gmax then gmax
            else py_round (solar + wind - load) 2)"
    using f(3) unfolding b m .
  have s: "strategy res = (if py_round (solar + wind - load) 2 > gmax
            then CURTAILING_GEN (py_round (py_round (solar + wind - load) 2 - gmax) 1)
            else DELAYED_CHARGE_EXPORTING)"
    using f(4) unfolding b m by (simp only: d simp_thms if_True)
  show ?thesis using res b f(2) e s by (intro exI [of _ res]) auto
qed

theorem delayed_charge_exporting_witness:
  "\<exists>res. optimize_power_flow \<lparr>local_hour = 15, GRID_MAX_EXPORT_KW_env = Unset\<rparr>
            40 10 20 75 80 20 20 ''AUTO'' 0 = Inr res
     \<and> battery_power_kw res = 0 \<and> grid_import_kw res = 0 \<and> grid_export_kw res = 30
     \<and> strategy res = DELAYED_CHARGE_EXPORTING"
proof -
  have h: "''AUTO'' \<noteq> ''MANUAL_CHARGE''" "''AUTO'' \<noteq> ''MANUAL_DISCHARGE''"
    "(40::real) + 10 - 20 > 0" "(20::real) > 15" "(75::real) > 70"
    "14 \<le> local_hour \<lparr>local_hour = 15, GRID_MAX_EXPORT_KW_env = Unset\<rparr>"
    "local_hour \<lparr>local_hour = 15, GRID_MAX_EXPORT_KW_env = Unset\<rparr> \<le> 18"
    "float_getenv (GRID_MAX_EXPORT_KW_env \<lparr>local_hour = 15, GRID_MAX_EXPORT_KW_env = Unset\<rparr>) 50
       = Inr 50"
    by (simp_all add: float_getenv_def)
  have r: "py_round (40 + 10 - 20) 2 = 30"
    by (simp add: py_round_def round_half_even_def)
  from delayed_charge_exporting [OF h, of 80 20 0] show ?thesis
    unfolding r by auto
qed

text \<open>
  C5 as stated fails above the ceiling: surplus 60 kW, SOC 75 %, forecast 20 kWh, hour 15
  and the default ceiling of 50 kW give export 50 kW under the curtailment label.
\<close>

theorem delayed_charge_exporting_counterexample:
  "optimize_power_flow \<lparr>local_hour = 15, GRID_MAX_EXPORT_KW_env = Unset\<rparr>
       60 0 0 75 80 20 20 ''AUTO'' 0
     = Inr \<lparr>battery_power_kw = 0, grid_import_kw = 0, grid_export_kw = 50,
            strategy = CURTAILING_GEN 10\<rparr>
   \<and> CURTAILING_GEN 10 \<noteq> DELAYED_CHARGE_EXPORTING \<and> (50::real) \<noteq> 60 + 0 - 0"
  unfolding optimize_power_flow_def Let_def
  by (simp add: float_getenv_def py_round_def round_half_even_def)

text \<open>
  C1, as amended. Two calls with identical arguments return identical results when they
  also agree on the two things the function reads from its surroundings: whether the
  local hour passes the peak test \<open>14 \<le> hour \<le> 18\<close>, and the value of the environment
  variable GRID_MAX_EXPORT_KW. In the two manual modes the arguments alone decide.
\<close>

theorem result_depends_on_clock_and_env_only_in_auto:
  assumes "md = ''MANUAL_CHARGE'' \<or> md = ''MANUAL_DISCHARGE'' \<or>
     ((14 \<le> local_hour a1 \<and> local_hour a1 \<le> 18) = (14 \<le> local_hour a2 \<and> local_hour a2 \<le> 18)
       \<and> float_getenv (GRID_MAX_EXPORT_KW_env a1) 50 = float_getenv (GRID_MAX_EXPORT_KW_env a2) 50)"
  shows "optimize_power_flow a1 solar wind load soc cap maxpw fc md ovr
       = optimize_power_flow a2 solar wind load soc cap maxpw fc md ovr"
proof -
  consider (mc) "md = ''MANUAL_CHARGE''" | (md) "md = ''MANUAL_DISCHARGE''"
    | (au) "md \<noteq> ''MANUAL_CHARGE''" "md \<noteq> ''MANUAL_DISCHARGE''" by blast
  then show ?thesis
  proof cases
    case mc
    show ?thesis unfolding mc opf_manual_charge by (rule refl)
  next
    case md
    show ?thesis unfolding md opf_manual_discharge by (rule refl)
  next
    case au
    with assms have pk: "(14 \<le> local_hour a1 \<and> local_hour a1 \<le> 18)
        = (14 \<le> local_hour a2 \<and> local_hour a2 \<le> 18)"
      and ev: "float_getenv (GRID_MAX_EXPORT_KW_env a1) 50
        = float_getenv (GRID_MAX_EXPORT_KW_env a2) 50" by blast+
    show ?thesis
    proof (cases "float_getenv (GRID_MAX_EXPORT_KW_env a1) 50")
      case (Inl e)
      with ev have e2: "float_getenv (GRID_MAX_EXPORT_KW_env a2) 50 = Inl e" by simp
      show ?thesis unfolding opf_auto_error [OF au Inl] opf_auto_error [OF au e2]
        by (rule refl)
    next
      case (Inr gmax)
      with ev have i2: "float_getenv (GRID_MAX_EXPORT_KW_env a2) 50 = Inr gmax" by simp
      show ?thesis
      proof (cases "solar + wind - load > 0")
        case True
        show ?thesis
          unfolding opf_auto_surplus [OF au Inr True] opf_auto_surplus [OF au i2 True] pk
          by (rule refl)
      next
        case False
        show ?thesis
          unfolding opf_auto_deficit [OF au Inr False] opf_auto_deficit [OF au i2 False] pk
          by (rule refl)
      qed
    qed
  qed
qed

theorem result_depends_on_clock_and_env_only_in_auto_witness:
  "optimize_power_flow \<lparr>local_hour = 15, GRID_MAX_EXPORT_KW_env = Unset\<rparr>
       40 10 20 75 80 20 20 ''AUTO'' 0
   = optimize_power_flow \<lparr>local_hour = 17, GRID_MAX_EXPORT_KW_env = EnvNumber 50\<rparr>
       40 10 20 75 80 20 20 ''AUTO'' 0"
  by (rule result_depends_on_clock_and_env_only_in_auto) (simp add: float_getenv_def)

text \<open>
  C1 as stated fails: the same arguments at 15:00 and at 10:00 local time give different
  results (delayed charge with export 30 kW against charging at 20 kW with export 10 kW).
\<close>

theorem hidden_inputs_counterexample:
  "optimize_power_flow \<lparr>local_hour = 15, GRID_MAX_EXPORT_KW_env = Unset\<rparr>
       40 10 20 75 80 20 20 ''AUTO'' 0
   \<noteq> optimize_power_flow \<lparr>local_hour = 10, GRID_MAX_EXPORT_KW_env = Unset\<rparr>
       40 10 20 75 80 20 20 ''AUTO'' 0"
  unfolding optimize_power_flow_def Let_def
  by (simp add: float_getenv_def py_round_def round_half_even_def)

end
